theory Spec2Isabelle
  imports Complex_Main
begin

section \<open>Data model\<close>

text \<open>
  The service keeps movies and four lookup tables (countries, genres, actors, languages)
  in a relational store; three link tables hold the many-to-many relations.
  Dates are proleptic Gregorian ordinals, as Python's \<open>date.toordinal()\<close> gives them
  (\<open>date.min\<close> is 1, \<open>date.max\<close> is 3652059); Python's \<open>int\<close> is \<open>int\<close>; the
  \<open>float\<close> columns are only stored and read back, never computed with, and are \<open>real\<close>.
\<close>

text \<open>
  Modelled from the spec: \<open>MovieStatusEnum\<close> is declared in \<open>database/models.py\<close>, which is
  not among the sources; the spec names the values released, post-production and in
  production. The service treats the value as an opaque tag.
\<close>

datatype MovieStatusEnum = Released | PostProduction | InProduction

text \<open>
  Modelled from the spec: the ORM classes \<open>MovieModel\<close>, \<open>CountryModel\<close>, \<open>GenreModel\<close>,
  \<open>ActorModel\<close> and \<open>LanguageModel\<close> are declared in \<open>database/models.py\<close>, which is not
  among the sources. The columns are the attributes the routes and the schemas read and
  write. An attribute of a loaded movie can be set to \<open>None\<close> by \<open>setattr\<close>, so the scalar
  attributes of a movie are optional values; genres, actors and languages share one row
  shape (id, name).
\<close>

record MovieModel =
  movie_id :: int
  movie_name :: "string option"
  movie_date :: "int option"
  movie_score :: "real option"
  movie_overview :: "string option"
  movie_status :: "MovieStatusEnum option"
  movie_budget :: "real option"
  movie_revenue :: "real option"
  movie_country_id :: int

record CountryModel =
  country_id :: int
  country_code :: string
  country_name :: "string option"

record NamedModel =
  row_id :: int
  row_name :: string

text \<open>The three lookup classes \<open>get_or_create\<close> is called with.\<close>

datatype lookup = GenreModel | ActorModel | LanguageModel

record store =
  movies :: "MovieModel list"
  countries :: "CountryModel list"
  genres :: "NamedModel list"
  actors :: "NamedModel list"
  languages :: "NamedModel list"
  movies_genres :: "(int \<times> int) list"
  movies_actors :: "(int \<times> int) list"
  movies_languages :: "(int \<times> int) list"

text \<open>
  Every raise of the routes and the schemas is a value. \<open>HTTPException\<close> carries its status
  code (the detail text is not modelled); \<open>RequestValidationError\<close> is the 422 of a query
  parameter outside its \<open>Query\<close> bounds; \<open>AttributeError\<close> is \<open>.name\<close> read on the \<open>None\<close>
  that \<open>pycountry.countries.get\<close> returns for an unknown code; \<open>MultipleResultsFound\<close> is
  raised by \<open>scalar_one_or_none\<close>; \<open>StoreError\<close> is a write the store rejects.
\<close>

datatype error =
    HTTPException int
  | RequestValidationError
  | ValueError string
  | OverflowError
  | AttributeError
  | MultipleResultsFound
  | StoreError

section \<open>The session\<close>

text \<open>
  Modelled from the spec: the session comes from \<open>database.get_db\<close>, which is not among the
  sources; section 5 of the spec leaves atomicity to the data store. A session works on
  one open transaction: \<open>working\<close> is the store as the transaction sees it (a flush writes
  there, and every query of the request reads there), \<open>committed\<close> is the durable store,
  which only a commit changes. \<open>faults\<close> says, for each coming write (flush or commit) in
  turn, whether the store rejects it; past the end of the list no write is rejected.
\<close>

record session =
  committed :: store
  working :: store
  faults :: "bool list"

definition next_fault :: "session \<Rightarrow> bool \<times> session" where
  "next_fault db = (case faults db of [] \<Rightarrow> (False, db) | f # fs \<Rightarrow> (f, db\<lparr>faults := fs\<rparr>))"

text \<open>\<open>await db.flush()\<close> after \<open>db.add(obj)\<close>: the pending change \<open>f\<close> reaches the transaction.\<close>

definition flush :: "(store \<Rightarrow> store) \<Rightarrow> session \<Rightarrow> (error + unit) \<times> session" where
  "flush f db =
     (case next_fault db of
        (True, db') \<Rightarrow> (Inl StoreError, db')
      | (False, db') \<Rightarrow> (Inr (), db'\<lparr>working := f (working db')\<rparr>))"

text \<open>\<open>await db.commit()\<close>: pending changes \<open>f\<close> are flushed and the transaction is made durable.\<close>

definition commit :: "(store \<Rightarrow> store) \<Rightarrow> session \<Rightarrow> (error + unit) \<times> session" where
  "commit f db =
     (case next_fault db of
        (True, db') \<Rightarrow> (Inl StoreError, db')
      | (False, db') \<Rightarrow> (Inr (), db'\<lparr>working := f (working db'), committed := f (working db')\<rparr>))"

text \<open>
  One request: a session is opened on the store, the route runs, and the session is closed.
  What the route did not commit is discarded with the session, whether it returned or raised.
\<close>

definition request ::
  "(session \<Rightarrow> (error + 'a) \<times> session) \<Rightarrow> store \<Rightarrow> bool list \<Rightarrow> (error + 'a) \<times> store" where
  "request route st fl =
     (case route \<lparr>committed = st, working = st, faults = fl\<rparr> of (r, db) \<Rightarrow> (r, committed db))"

text \<open>
  \<open>scalar_one_or_none\<close>: the only row, \<open>None\<close> when there is none, an error when there are
  several. \<open>db.scalar\<close> is the first row or \<open>None\<close>, which is \<open>find\<close>.
\<close>

definition scalar_one_or_none :: "'a list \<Rightarrow> error + 'a option" where
  "scalar_one_or_none rows =
     (case rows of [] \<Rightarrow> Inr None | [r] \<Rightarrow> Inr (Some r) | _ \<Rightarrow> Inl MultipleResultsFound)"

text \<open>
  Modelled from the spec: ids are "unique, generated"; the key columns are declared in
  \<open>database/models.py\<close>. A new row gets an id above every id of its table.
\<close>

definition fresh_id :: "int list \<Rightarrow> int" where
  "fresh_id ids = fold max ids 0 + 1"

section \<open>Listing movies\<close>

text \<open>\<open>str\<close> of an integer, as the f-strings of the page links format it.\<close>

definition digit_char :: "nat \<Rightarrow> char" where
  "digit_char d = ''0123456789'' ! d"

function str_nat :: "nat \<Rightarrow> string" where
  "str_nat n = (if n < 10 then [digit_char n] else str_nat (n div 10) @ [digit_char (n mod 10)])"
  by pat_completeness auto
termination
  by (relation "measure (\<lambda>n. n)") auto

declare str_nat.simps [simp del]

definition str_int :: "int \<Rightarrow> string" where
  "str_int i = (if i < 0 then CHR ''-'' # str_nat (nat (- i)) else str_nat (nat i))"

definition page_link :: "int \<Rightarrow> int \<Rightarrow> string" where
  "page_link page per_page =
     ''/theater/movies/?page='' @ str_int page @ ''&per_page='' @ str_int per_page"

record MovieListResponse =
  resp_movies :: "MovieModel list"
  resp_prev_page :: "string option"
  resp_next_page :: "string option"
  resp_total_pages :: int
  resp_total_items :: int

text \<open>
  \<open>get_movies\<close>: the bounds \<open>Query(1, ge=1)\<close> and \<open>Query(10, ge=1, le=20)\<close> of the signature
  come first; then the count, the two page checks, the slice ordered by id descending, the
  check that the slice is not empty, and the links.
\<close>

definition get_movies :: "session \<Rightarrow> int \<Rightarrow> int \<Rightarrow> error + MovieListResponse" where
  "get_movies db page per_page =
     (if \<not> (1 \<le> page \<and> 1 \<le> per_page \<and> per_page \<le> 20) then Inl RequestValidationError
      else
        let total_items = int (length (movies (working db))) in
        if total_items = 0 then Inl (HTTPException 404)
        else
          let total_pages = (total_items + per_page - 1) div per_page in
          if page > total_pages then Inl (HTTPException 404)
          else
            let offset = (page - 1) * per_page;
                result = take (nat per_page)
                          (drop (nat offset) (sort_key (\<lambda>m. - movie_id m) (movies (working db))))
            in
            if result = [] then Inl (HTTPException 404)
            else Inr \<lparr>
              resp_movies = result,
              resp_prev_page = (if page > 1 then Some (page_link (page - 1) per_page) else None),
              resp_next_page =
                (if page < total_pages then Some (page_link (page + 1) per_page) else None),
              resp_total_pages = total_pages,
              resp_total_items = total_items\<rparr>)"

section \<open>Validation of the create payload\<close>

definition date_max :: int where
  "date_max = 3652059"

text \<open>\<open>date + timedelta(days=n)\<close>: Python raises \<open>OverflowError\<close> outside \<open>date.min .. date.max\<close>.\<close>

definition date_add :: "int \<Rightarrow> int \<Rightarrow> error + int" where
  "date_add d n = (if 1 \<le> d + n \<and> d + n \<le> date_max then Inr (d + n) else Inl OverflowError)"

text \<open>\<open>MovieCreateSchema.date_validation\<close>, with \<open>date.today()\<close> as the first argument.\<close>

definition date_validation :: "int \<Rightarrow> int \<Rightarrow> error + int" where
  "date_validation today v =
     (case date_add today 365 of
        Inl e \<Rightarrow> Inl e
      | Inr max_date \<Rightarrow>
          if v > max_date
          then Inl (ValueError ''The date must not be more than one year in the future.'')
          else Inr v)"

section \<open>Creating a movie\<close>

record MovieCreateSchema =
  create_name :: string
  create_date :: int
  create_score :: real
  create_overview :: string
  create_status :: MovieStatusEnum
  create_budget :: real
  create_revenue :: real
  create_country :: string
  create_genres :: "string list"
  create_actors :: "string list"
  create_languages :: "string list"

text \<open>The table of a lookup class, and a change to it.\<close>

fun table :: "lookup \<Rightarrow> store \<Rightarrow> NamedModel list" where
  "table GenreModel st = genres st"
| "table ActorModel st = actors st"
| "table LanguageModel st = languages st"

fun table_update :: "lookup \<Rightarrow> (NamedModel list \<Rightarrow> NamedModel list) \<Rightarrow> store \<Rightarrow> store" where
  "table_update GenreModel f st = st\<lparr>genres := f (genres st)\<rparr>"
| "table_update ActorModel f st = st\<lparr>actors := f (actors st)\<rparr>"
| "table_update LanguageModel f st = st\<lparr>languages := f (languages st)\<rparr>"

text \<open>The link table of a lookup class.\<close>

fun links :: "lookup \<Rightarrow> store \<Rightarrow> (int \<times> int) list" where
  "links GenreModel st = movies_genres st"
| "links ActorModel st = movies_actors st"
| "links LanguageModel st = movies_languages st"

text \<open>
  Lines 93 to 98 of \<open>post_movie\<close>: the country of the code, inserted and flushed when the
  table has none. \<open>pycountry\<close> is the external reference table, from alpha-3 code to name.
\<close>

definition resolve_country ::
  "(string \<Rightarrow> string option) \<Rightarrow> string \<Rightarrow> session \<Rightarrow> (error + CountryModel) \<times> session" where
  "resolve_country pycountry code db =
     (case find (\<lambda>c. country_code c = code) (countries (working db)) of
        Some country \<Rightarrow> (Inr country, db)
      | None \<Rightarrow>
          (case pycountry code of
             None \<Rightarrow> (Inl AttributeError, db)
           | Some name \<Rightarrow>
               let country = \<lparr>country_id = fresh_id (map country_id (countries (working db))),
                              country_code = code, country_name = Some name\<rparr>
               in (case flush (\<lambda>st. st\<lparr>countries := countries st @ [country]\<rparr>) db of
                     (Inl e, db') \<Rightarrow> (Inl e, db')
                   | (Inr _, db') \<Rightarrow> (Inr country, db'))))"

text \<open>The loop of \<open>get_or_create\<close>, with \<open>items\<close> as its accumulator.\<close>

fun get_or_create_loop ::
  "lookup \<Rightarrow> string list \<Rightarrow> NamedModel list \<Rightarrow> session \<Rightarrow> (error + NamedModel list) \<times> session" where
  "get_or_create_loop model [] items db = (Inr items, db)"
| "get_or_create_loop model (name # name_list) items db =
     (case find (\<lambda>r. row_name r = name) (table model (working db)) of
        Some obj \<Rightarrow> get_or_create_loop model name_list (items @ [obj]) db
      | None \<Rightarrow>
          (let obj = \<lparr>row_id = fresh_id (map row_id (table model (working db))), row_name = name\<rparr>
           in (case flush (table_update model (\<lambda>rows. rows @ [obj])) db of
                 (Inl e, db') \<Rightarrow> (Inl e, db')
               | (Inr _, db') \<Rightarrow> get_or_create_loop model name_list (items @ [obj]) db')))"

definition get_or_create ::
  "lookup \<Rightarrow> string list \<Rightarrow> session \<Rightarrow> (error + NamedModel list) \<times> session" where
  "get_or_create model name_list db = get_or_create_loop model name_list [] db"

text \<open>
  Modelled from the spec: the link tables are declared in \<open>database/models.py\<close>, which is
  not among the sources. The spec has a movie hold sets of genres, actors and languages: a
  new movie is stored with one link row for each distinct row of its three relationship
  lists, however often the row occurs in the list.
\<close>

definition add_movie ::
  "MovieModel \<Rightarrow> NamedModel list \<Rightarrow> NamedModel list \<Rightarrow> NamedModel list \<Rightarrow> store \<Rightarrow> store" where
  "add_movie m gs as ls st =
     st\<lparr>movies := movies st @ [m],
        movies_genres := movies_genres st @ remdups (map (\<lambda>g. (movie_id m, row_id g)) gs),
        movies_actors := movies_actors st @ remdups (map (\<lambda>a. (movie_id m, row_id a)) as),
        movies_languages :=
          movies_languages st @ remdups (map (\<lambda>l. (movie_id m, row_id l)) ls)\<rparr>"

text \<open>A movie with its relations loaded (\<open>selectinload\<close> of country, genres, actors, languages).\<close>

record MovieDetail =
  detail_movie :: MovieModel
  detail_country :: "CountryModel option"
  detail_genres :: "NamedModel list"
  detail_actors :: "NamedModel list"
  detail_languages :: "NamedModel list"

definition load_movie :: "store \<Rightarrow> int \<Rightarrow> MovieDetail option" where
  "load_movie st mid =
     (case find (\<lambda>m. movie_id m = mid) (movies st) of
        None \<Rightarrow> None
      | Some m \<Rightarrow> Some \<lparr>
          detail_movie = m,
          detail_country = find (\<lambda>c. country_id c = movie_country_id m) (countries st),
          detail_genres = filter (\<lambda>g. (mid, row_id g) \<in> set (movies_genres st)) (genres st),
          detail_actors = filter (\<lambda>a. (mid, row_id a) \<in> set (movies_actors st)) (actors st),
          detail_languages =
            filter (\<lambda>l. (mid, row_id l) \<in> set (movies_languages st)) (languages st)\<rparr>)"

definition post_movie ::
  "(string \<Rightarrow> string option) \<Rightarrow> MovieCreateSchema \<Rightarrow> session
     \<Rightarrow> (error + MovieDetail option) \<times> session" where
  "post_movie pycountry movie db =
     (case find (\<lambda>m. movie_name m = Some (create_name movie)
                    \<and> movie_date m = Some (create_date movie)) (movies (working db)) of
        Some existing_movie \<Rightarrow> (Inl (HTTPException 409), db)
      | None \<Rightarrow>
         (case resolve_country pycountry (create_country movie) db of
            (Inl e, db1) \<Rightarrow> (Inl e, db1)
          | (Inr country, db1) \<Rightarrow>
         (case get_or_create GenreModel (create_genres movie) db1 of
            (Inl e, db2) \<Rightarrow> (Inl e, db2)
          | (Inr genre_rows, db2) \<Rightarrow>
         (case get_or_create ActorModel (create_actors movie) db2 of
            (Inl e, db3) \<Rightarrow> (Inl e, db3)
          | (Inr actor_rows, db3) \<Rightarrow>
         (case get_or_create LanguageModel (create_languages movie) db3 of
            (Inl e, db4) \<Rightarrow> (Inl e, db4)
          | (Inr language_rows, db4) \<Rightarrow>
              let new_movie = \<lparr>
                    movie_id = fresh_id (map movie_id (movies (working db4))),
                    movie_name = Some (create_name movie),
                    movie_date = Some (create_date movie),
                    movie_score = Some (create_score movie),
                    movie_overview = Some (create_overview movie),
                    movie_status = Some (create_status movie),
                    movie_budget = Some (create_budget movie),
                    movie_revenue = Some (create_revenue movie),
                    movie_country_id = country_id country\<rparr>
              in (case commit (add_movie new_movie genre_rows actor_rows language_rows) db4 of
                    (Inl e, db5) \<Rightarrow> (Inl e, db5)
                  | (Inr _, db5) \<Rightarrow>
                      (Inr (load_movie (working db5) (movie_id new_movie)), db5)))))))"

section \<open>Deleting a movie\<close>

text \<open>
  Modelled from the spec: what \<open>db.delete(movie)\<close> removes is fixed by the cascade rules of
  the relationships, declared in \<open>database/models.py\<close>, which is not among the sources. The
  spec: "remove the Movie and its link rows; related shared entities and Country remain".
\<close>

definition delete_row :: "int \<Rightarrow> store \<Rightarrow> store" where
  "delete_row mid st =
     st\<lparr>movies := filter (\<lambda>m. movie_id m \<noteq> mid) (movies st),
        movies_genres := filter (\<lambda>l. fst l \<noteq> mid) (movies_genres st),
        movies_actors := filter (\<lambda>l. fst l \<noteq> mid) (movies_actors st),
        movies_languages := filter (\<lambda>l. fst l \<noteq> mid) (movies_languages st)\<rparr>"

definition delete_movie :: "int \<Rightarrow> session \<Rightarrow> (error + unit) \<times> session" where
  "delete_movie mid db =
     (case scalar_one_or_none (filter (\<lambda>m. movie_id m = mid) (movies (working db))) of
        Inl e \<Rightarrow> (Inl e, db)
      | Inr None \<Rightarrow> (Inl (HTTPException 404), db)
      | Inr (Some movie) \<Rightarrow> commit (delete_row (movie_id movie)) db)"

section \<open>Updating a movie\<close>

text \<open>
  \<open>MovieUpdateSchema\<close>: every field is optional with default \<open>None\<close>; \<open>fields_set\<close> holds the
  names of the fields the payload gave (a field given as \<open>null\<close> is set, with value \<open>None\<close>).
  A key of the payload that is not a field of the schema is ignored by the schema.

  The field \<open>date\<close> is declared as \<open>date: Optional[date] = None\<close>. In a class body Python
  binds the name to the default before it reads the annotation, so the annotation is
  \<open>Optional[None]\<close>, which is \<open>NoneType\<close> (the fields of the other schemas are declared
  \<open>date: date\<close>, with no default, and keep the type \<open>datetime.date\<close>). The only value the
  schema accepts for the field is \<open>None\<close>; a payload with a date there is refused before the
  route runs.
\<close>

type_synonym NoneType = unit

record MovieUpdateSchema =
  update_name :: "string option"
  update_date :: NoneType
  update_score :: "real option"
  update_overview :: "string option"
  update_status :: "MovieStatusEnum option"
  update_budget :: "real option"
  update_revenue :: "real option"
  fields_set :: "string set"

text \<open>An item of \<open>movie_update.dict(exclude_unset=True)\<close>: the key with its value.\<close>

datatype item =
    Name "string option"
  | Date NoneType
  | Score "real option"
  | Overview "string option"
  | Status "MovieStatusEnum option"
  | Budget "real option"
  | Revenue "real option"

definition dict_exclude_unset :: "MovieUpdateSchema \<Rightarrow> item list" where
  "dict_exclude_unset u =
     (if ''name'' \<in> fields_set u then [Name (update_name u)] else []) @
     (if ''date'' \<in> fields_set u then [Date (update_date u)] else []) @
     (if ''score'' \<in> fields_set u then [Score (update_score u)] else []) @
     (if ''overview'' \<in> fields_set u then [Overview (update_overview u)] else []) @
     (if ''status'' \<in> fields_set u then [Status (update_status u)] else []) @
     (if ''budget'' \<in> fields_set u then [Budget (update_budget u)] else []) @
     (if ''revenue'' \<in> fields_set u then [Revenue (update_revenue u)] else [])"

fun setattr :: "MovieModel \<Rightarrow> item \<Rightarrow> MovieModel" where
  "setattr movie (Name v) = movie\<lparr>movie_name := v\<rparr>"
| "setattr movie (Date v) = movie\<lparr>movie_date := None\<rparr>"
| "setattr movie (Score v) = movie\<lparr>movie_score := v\<rparr>"
| "setattr movie (Overview v) = movie\<lparr>movie_overview := v\<rparr>"
| "setattr movie (Status v) = movie\<lparr>movie_status := v\<rparr>"
| "setattr movie (Budget v) = movie\<lparr>movie_budget := v\<rparr>"
| "setattr movie (Revenue v) = movie\<lparr>movie_revenue := v\<rparr>"

definition update_movie :: "int \<Rightarrow> MovieUpdateSchema \<Rightarrow> session \<Rightarrow> (error + string) \<times> session" where
  "update_movie mid movie_update db =
     (case scalar_one_or_none (filter (\<lambda>m. movie_id m = mid) (movies (working db))) of
        Inl e \<Rightarrow> (Inl e, db)
      | Inr None \<Rightarrow> (Inl (HTTPException 404), db)
      | Inr (Some movie) \<Rightarrow>
          let update_data = dict_exclude_unset movie_update;
              movie' = fold (\<lambda>kv m. setattr m kv) update_data movie
          in (case commit (\<lambda>st. st\<lparr>movies :=
                       map (\<lambda>m. if movie_id m = movie_id movie then movie' else m) (movies st)\<rparr>) db of
                (Inl e, db') \<Rightarrow> (Inl e, db')
              | (Inr _, db') \<Rightarrow> (Inr ''Movie updated successfully.'', db')))"

section \<open>Names for the statements\<close>

text \<open>The names a create request gives for a lookup class.\<close>

fun requested :: "lookup \<Rightarrow> MovieCreateSchema \<Rightarrow> string list" where
  "requested GenreModel movie = create_genres movie"
| "requested ActorModel movie = create_actors movie"
| "requested LanguageModel movie = create_languages movie"

text \<open>The row \<open>post_movie\<close> builds for the request, with the id and the country id it gets.\<close>

definition new_movie_row :: "MovieCreateSchema \<Rightarrow> int \<Rightarrow> int \<Rightarrow> MovieModel" where
  "new_movie_row movie mid cid = \<lparr>
     movie_id = mid,
     movie_name = Some (create_name movie),
     movie_date = Some (create_date movie),
     movie_score = Some (create_score movie),
     movie_overview = Some (create_overview movie),
     movie_status = Some (create_status movie),
     movie_budget = Some (create_budget movie),
     movie_revenue = Some (create_revenue movie),
     movie_country_id = cid\<rparr>"

section \<open>Example stores and requests\<close>

definition example_movie :: "int \<Rightarrow> string \<Rightarrow> int \<Rightarrow> MovieModel" where
  "example_movie i n d = \<lparr>movie_id = i, movie_name = Some n, movie_date = Some d,
     movie_score = Some 80, movie_overview = Some ''overview'', movie_status = Some Released,
     movie_budget = Some 1000, movie_revenue = Some 2000, movie_country_id = 1\<rparr>"

definition empty_store :: store where
  "empty_store = \<lparr>movies = [], countries = [], genres = [], actors = [], languages = [],
     movies_genres = [], movies_actors = [], movies_languages = []\<rparr>"

definition open_session :: "store \<Rightarrow> session" where
  "open_session st = \<lparr>committed = st, working = st, faults = []\<rparr>"

definition five_movies :: store where
  "five_movies = empty_store\<lparr>movies :=
     [example_movie 1 ''A'' 738000, example_movie 2 ''B'' 738001, example_movie 3 ''C'' 738002,
      example_movie 4 ''D'' 738003, example_movie 5 ''E'' 738004]\<rparr>"

definition example_pycountry :: "string \<Rightarrow> string option" where
  "example_pycountry code =
     (if code = ''USA'' then Some ''United States''
      else if code = ''FRA'' then Some ''France'' else None)"

definition catalog :: store where
  "catalog = \<lparr>
     movies = [example_movie 1 ''Alien'' 722000],
     countries = [\<lparr>country_id = 1, country_code = ''USA'', country_name = Some ''United States''\<rparr>],
     genres = [\<lparr>row_id = 1, row_name = ''Sci-Fi''\<rparr>],
     actors = [\<lparr>row_id = 1, row_name = ''Sigourney Weaver''\<rparr>],
     languages = [\<lparr>row_id = 1, row_name = ''English''\<rparr>],
     movies_genres = [(1, 1)], movies_actors = [(1, 1)], movies_languages = [(1, 1)]\<rparr>"

definition dune :: MovieCreateSchema where
  "dune = \<lparr>create_name = ''Dune'', create_date = 739000, create_score = 90,
     create_overview = ''Arrakis'', create_status = Released, create_budget = 165, create_revenue = 400,
     create_country = ''USA'', create_genres = [''Sci-Fi'', ''Drama''],
     create_actors = [''Zendaya''], create_languages = [''English'']\<rparr>"

definition amelie :: MovieCreateSchema where
  "amelie = \<lparr>create_name = ''Amelie'', create_date = 730000, create_score = 83,
     create_overview = ''Montmartre'', create_status = Released, create_budget = 10, create_revenue = 174,
     create_country = ''FRA'', create_genres = [''Comedy''],
     create_actors = [''Audrey Tautou''], create_languages = [''French'']\<rparr>"

text \<open>A request whose code neither the country table nor the reference table knows.\<close>

definition atlantis :: MovieCreateSchema where
  "atlantis = \<lparr>create_name = ''Atlantis'', create_date = 737000, create_score = 70,
     create_overview = ''Sea'', create_status = Released, create_budget = 90, create_revenue = 186,
     create_country = ''XXX'', create_genres = [''Adventure''],
     create_actors = [''Michael J. Fox''], create_languages = [''English'']\<rparr>"

text \<open>A request for a (name, date) the catalog has, with a code the country table lacks.\<close>

definition alien_remake :: MovieCreateSchema where
  "alien_remake = \<lparr>create_name = ''Alien'', create_date = 722000, create_score = 60,
     create_overview = ''Again'', create_status = InProduction, create_budget = 1, create_revenue = 0,
     create_country = ''FRA'', create_genres = [''Sci-Fi''],
     create_actors = [], create_languages = [''French'']\<rparr>"

definition dune_detail :: MovieDetail where
  "dune_detail = \<lparr>
     detail_movie = \<lparr>movie_id = 2, movie_name = Some ''Dune'', movie_date = Some 739000,
       movie_score = Some 90, movie_overview = Some ''Arrakis'', movie_status = Some Released,
       movie_budget = Some 165, movie_revenue = Some 400, movie_country_id = 1\<rparr>,
     detail_country =
       Some \<lparr>country_id = 1, country_code = ''USA'', country_name = Some ''United States''\<rparr>,
     detail_genres = [\<lparr>row_id = 1, row_name = ''Sci-Fi''\<rparr>, \<lparr>row_id = 2, row_name = ''Drama''\<rparr>],
     detail_actors = [\<lparr>row_id = 2, row_name = ''Zendaya''\<rparr>],
     detail_languages = [\<lparr>row_id = 1, row_name = ''English''\<rparr>]\<rparr>"

definition catalog_with_dune :: store where
  "catalog_with_dune = \<lparr>
     movies = [example_movie 1 ''Alien'' 722000, detail_movie dune_detail],
     countries = [\<lparr>country_id = 1, country_code = ''USA'', country_name = Some ''United States''\<rparr>],
     genres = [\<lparr>row_id = 1, row_name = ''Sci-Fi''\<rparr>, \<lparr>row_id = 2, row_name = ''Drama''\<rparr>],
     actors = [\<lparr>row_id = 1, row_name = ''Sigourney Weaver''\<rparr>, \<lparr>row_id = 2, row_name = ''Zendaya''\<rparr>],
     languages = [\<lparr>row_id = 1, row_name = ''English''\<rparr>],
     movies_genres = [(1, 1), (2, 1), (2, 2)],
     movies_actors = [(1, 1), (2, 2)],
     movies_languages = [(1, 1), (2, 1)]\<rparr>"

definition amelie_detail :: MovieDetail where
  "amelie_detail = \<lparr>
     detail_movie = \<lparr>movie_id = 2, movie_name = Some ''Amelie'', movie_date = Some 730000,
       movie_score = Some 83, movie_overview = Some ''Montmartre'', movie_status = Some Released,
       movie_budget = Some 10, movie_revenue = Some 174, movie_country_id = 2\<rparr>,
     detail_country = Some \<lparr>country_id = 2, country_code = ''FRA'', country_name = Some ''France''\<rparr>,
     detail_genres = [\<lparr>row_id = 2, row_name = ''Comedy''\<rparr>],
     detail_actors = [\<lparr>row_id = 2, row_name = ''Audrey Tautou''\<rparr>],
     detail_languages = [\<lparr>row_id = 2, row_name = ''French''\<rparr>]\<rparr>"

definition catalog_with_amelie :: store where
  "catalog_with_amelie = \<lparr>
     movies = [example_movie 1 ''Alien'' 722000, detail_movie amelie_detail],
     countries = [\<lparr>country_id = 1, country_code = ''USA'', country_name = Some ''United States''\<rparr>,
                  \<lparr>country_id = 2, country_code = ''FRA'', country_name = Some ''France''\<rparr>],
     genres = [\<lparr>row_id = 1, row_name = ''Sci-Fi''\<rparr>, \<lparr>row_id = 2, row_name = ''Comedy''\<rparr>],
     actors = [\<lparr>row_id = 1, row_name = ''Sigourney Weaver''\<rparr>,
               \<lparr>row_id = 2, row_name = ''Audrey Tautou''\<rparr>],
     languages = [\<lparr>row_id = 1, row_name = ''English''\<rparr>, \<lparr>row_id = 2, row_name = ''French''\<rparr>],
     movies_genres = [(1, 1), (2, 2)],
     movies_actors = [(1, 1), (2, 2)],
     movies_languages = [(1, 1), (2, 2)]\<rparr>"

definition score_only :: MovieUpdateSchema where
  "score_only = \<lparr>update_name = None, update_date = (), update_score = Some 55,
     update_overview = None, update_status = None, update_budget = None, update_revenue = None,
     fields_set = {''score''}\<rparr>"

definition null_overview :: MovieUpdateSchema where
  "null_overview = \<lparr>update_name = Some ''Aliens'', update_date = (), update_score = None,
     update_overview = None, update_status = None, update_budget = None, update_revenue = None,
     fields_set = {''name'', ''overview''}\<rparr>"

definition alien_rescored :: store where
  "alien_rescored = catalog\<lparr>movies := [(example_movie 1 ''Alien'' 722000)\<lparr>movie_score := Some 55\<rparr>]\<rparr>"

definition alien_renamed :: store where
  "alien_renamed = catalog\<lparr>movies := [(example_movie 1 ''Alien'' 722000)
      \<lparr>movie_name := Some ''Aliens'', movie_overview := None\<rparr>]\<rparr>"

definition dune_deleted :: store where
  "dune_deleted = catalog_with_dune\<lparr>movies := [example_movie 1 ''Alien'' 722000],
     movies_genres := [(1, 1)], movies_actors := [(1, 1)], movies_languages := [(1, 1)]\<rparr>"

lemmas example_defs =
  example_movie_def example_pycountry_def catalog_def dune_def amelie_def dune_detail_def
  catalog_with_dune_def amelie_detail_def catalog_with_amelie_def atlantis_def alien_remake_def

lemmas route_defs =
  request_def post_movie_def resolve_country_def get_or_create_def flush_def commit_def
  next_fault_def add_movie_def load_movie_def fresh_id_def Let_def

section \<open>Pagination\<close>

lemma div_ceiling_shift: "0 < (pp::int) \<Longrightarrow> (t + pp - 1) div pp = - ((- t) div pp)"
proof -
  assume pp: "0 < pp"
  define q where "q = (- t) div pp"
  define r where "r = (- t) mod pp"
  have t: "- t = q * pp + r" by (simp add: q_def r_def)
  have r: "0 \<le> r" "r < pp" using pp by (simp_all add: r_def)
  have "t + pp - 1 = (- q) * pp + (pp - 1 - r)" using t by (simp add: algebra_simps)
  moreover have "0 \<le> pp - 1 - r" "pp - 1 - r < pp" using r by simp_all
  ultimately have "(t + pp - 1) div pp = - q"
    by (metis div_pos_pos_trivial add.right_neutral div_mult_self3 pp less_irrefl)
  then show ?thesis by (simp add: q_def)
qed

lemma total_pages_ceiling:
  "0 < (pp::int) \<Longrightarrow> (t + pp - 1) div pp = \<lceil>real_of_int t / real_of_int pp\<rceil>"
  by (simp add: ceiling_divide_eq_div div_ceiling_shift)

lemma offset_below_total:
  assumes "0 < (pp::int)" and "page \<le> (t + pp - 1) div pp"
  shows "(page - 1) * pp < t"
proof -
  have "(t + pp - 1) div pp = (t - 1) div pp + 1"
    using assms(1) by (metis diff_add_eq div_add_self2 less_irrefl)
  then have "page - 1 \<le> (t - 1) div pp" using assms(2) by simp
  then have "(page - 1) * pp \<le> ((t - 1) div pp) * pp"
    using assms(1) by (simp add: mult_right_mono)
  also have "\<dots> \<le> t - 1"
    using assms(1) by (metis mult.commute pos_mod_sign minus_mod_eq_mult_div diff_le_eq
        le_add_same_cancel1)
  finally show ?thesis by simp
qed

lemma get_movies_slice_nonempty:
  assumes "1 \<le> page" "0 < pp" "page \<le> (int (length xs) + pp - 1) div pp"
  shows "take (nat pp) (drop (nat ((page - 1) * pp)) (sort_key f xs)) \<noteq> []"
proof -
  have "(page - 1) * pp < int (length xs)" using offset_below_total [OF assms(2,3)] .
  moreover have "0 \<le> (page - 1) * pp" using assms by simp
  ultimately have "nat ((page - 1) * pp) < length (sort_key f xs)" by simp
  then show ?thesis using assms(2) by simp
qed

text \<open>
  C1. A list request on a store with at least one movie, with \<open>page \<ge> 1\<close>, \<open>per_page\<close> in
  1..20 and \<open>page\<close> at most the ceiling of \<open>total_items / per_page\<close>, returns a response:
  its \<open>total_pages\<close> is that ceiling, \<open>prev_page\<close> is null exactly when \<open>page = 1\<close>, and
  \<open>next_page\<close> is null exactly when \<open>page = total_pages\<close>.
\<close>

theorem get_movies_pagination:
  assumes "movies (working db) \<noteq> []" and "1 \<le> page" and "1 \<le> per_page" and "per_page \<le> 20"
    and "page \<le> \<lceil>real (length (movies (working db))) / real_of_int per_page\<rceil>"
  shows "\<exists>r. get_movies db page per_page = Inr r
     \<and> resp_total_pages r = \<lceil>real (length (movies (working db))) / real_of_int per_page\<rceil>
     \<and> (resp_prev_page r = None \<longleftrightarrow> page = 1)
     \<and> (resp_next_page r = None \<longleftrightarrow> page = resp_total_pages r)"
proof -
  let ?t = "int (length (movies (working db)))"
  let ?tp = "(?t + per_page - 1) div per_page"
  have pp: "0 < per_page" using assms(3) by simp
  have tp: "?tp = \<lceil>real (length (movies (working db))) / real_of_int per_page\<rceil>"
    using total_pages_ceiling [OF pp, of ?t] by simp
  have le: "page \<le> ?tp" using assms(5) tp by simp
  have ne: "take (nat per_page) (drop (nat ((page - 1) * per_page))
              (sort_key (\<lambda>m. - movie_id m) (movies (working db)))) \<noteq> []"
    using get_movies_slice_nonempty [OF assms(2) pp le] .
  have t0: "?t \<noteq> 0" using assms(1) by simp
  show ?thesis
    unfolding tp [symmetric]
    using assms(2,3,4) le ne t0
    by (auto simp add: get_movies_def Let_def)
qed

theorem get_movies_pagination_witness:
  "movies (working (open_session five_movies)) \<noteq> [] \<and> (1::int) \<le> 3 \<and> (1::int) \<le> 2 \<and> (2::int) \<le> 20
   \<and> (3::int) \<le> \<lceil>real (length (movies (working (open_session five_movies)))) / real_of_int 2\<rceil>
   \<and> (\<exists>r. get_movies (open_session five_movies) 3 2 = Inr r \<and> resp_total_pages r = 3
        \<and> resp_prev_page r \<noteq> None \<and> resp_next_page r = None)
   \<and> get_movies (open_session five_movies) 3 2 = Inr \<lparr>
        resp_movies = [example_movie 1 ''A'' 738000],
        resp_prev_page = Some ''/theater/movies/?page=2&per_page=2'',
        resp_next_page = None, resp_total_pages = 3, resp_total_items = 5\<rparr>"
proof -
  have some: "movies (working (open_session five_movies)) \<noteq> []"
    by (simp add: open_session_def five_movies_def)
  have pages: "\<lceil>real (length (movies (working (open_session five_movies)))) / real_of_int 2\<rceil> = 3"
    by (simp add: open_session_def five_movies_def)
  have page: "(3::int) \<le> \<lceil>real (length (movies (working (open_session five_movies)))) / real_of_int 2\<rceil>"
    using pages by simp
  have b: "(1::int) \<le> 3" "(1::int) \<le> 2" "(2::int) \<le> 20" by simp_all
  from get_movies_pagination [OF some b page] pages
  have resp: "\<exists>r. get_movies (open_session five_movies) 3 2 = Inr r \<and> resp_total_pages r = 3
        \<and> resp_prev_page r \<noteq> None \<and> resp_next_page r = None"
    by auto
  have val: "get_movies (open_session five_movies) 3 2 = Inr \<lparr>
        resp_movies = [example_movie 1 ''A'' 738000],
        resp_prev_page = Some ''/theater/movies/?page=2&per_page=2'',
        resp_next_page = None, resp_total_pages = 3, resp_total_items = 5\<rparr>"
    by (simp add: get_movies_def open_session_def five_movies_def empty_store_def example_movie_def
        page_link_def str_int_def str_nat.simps digit_char_def)
  show ?thesis using some b page resp val by blast
qed

text \<open>
  C6. A list request with \<open>page \<ge> 1\<close> and \<open>per_page\<close> in 1..20 fails with NotFound (404)
  exactly when the store has no movie or \<open>page\<close> is above the ceiling of
  \<open>total_items / per_page\<close>, and it fails in no other case.
\<close>

theorem get_movies_not_found:
  assumes "1 \<le> page" and "1 \<le> per_page" and "per_page \<le> 20"
  shows "(get_movies db page per_page = Inl (HTTPException 404) \<longleftrightarrow>
            movies (working db) = []
          \<or> page > \<lceil>real (length (movies (working db))) / real_of_int per_page\<rceil>)
     \<and> ((\<exists>e. get_movies db page per_page = Inl e) \<longleftrightarrow>
            movies (working db) = []
          \<or> page > \<lceil>real (length (movies (working db))) / real_of_int per_page\<rceil>)"
proof -
  let ?t = "int (length (movies (working db)))"
  let ?tp = "(?t + per_page - 1) div per_page"
  have pp: "0 < per_page" using assms(2) by simp
  have tp: "?tp = \<lceil>real (length (movies (working db))) / real_of_int per_page\<rceil>"
    using total_pages_ceiling [OF pp, of ?t] by simp
  have ne: "page \<le> ?tp \<Longrightarrow> take (nat per_page) (drop (nat ((page - 1) * per_page))
              (sort_key (\<lambda>m. - movie_id m) (movies (working db)))) \<noteq> []"
    using get_movies_slice_nonempty [OF assms(1) pp] .
  show ?thesis
    unfolding tp [symmetric]
    using assms ne
    by (auto simp add: get_movies_def Let_def)
qed

theorem get_movies_not_found_witness:
  "(1::int) \<le> 999 \<and> (1::int) \<le> 10 \<and> (10::int) \<le> 20
   \<and> length (movies (working (open_session five_movies))) = 5
   \<and> (999::int) > \<lceil>real (length (movies (working (open_session five_movies)))) / real_of_int 10\<rceil>
   \<and> get_movies (open_session five_movies) 999 10 = Inl (HTTPException 404)"
proof -
  have b: "(1::int) \<le> 999" "(1::int) \<le> 10" "(10::int) \<le> 20" by simp_all
  have five: "length (movies (working (open_session five_movies))) = 5"
    by (simp add: open_session_def five_movies_def)
  have beyond: "(999::int) > \<lceil>real (length (movies (working (open_session five_movies)))) / real_of_int 10\<rceil>"
    by (simp add: five)
  from get_movies_not_found [OF b, of "open_session five_movies"] beyond
  have "get_movies (open_session five_movies) 999 10 = Inl (HTTPException 404)"
    by blast
  then show ?thesis using b five beyond by blast
qed

section \<open>The release date\<close>

text \<open>
  C9. With today a date at least 365 days before \<open>date.max\<close>, \<open>date_validation\<close> raises its
  \<open>ValueError\<close> exactly when the release date is more than 365 days after today; otherwise it
  returns the date. A date exactly 365 days ahead passes, and so does every past date.
\<close>

theorem date_validation_bound:
  assumes "1 \<le> today" and "today + 365 \<le> date_max"
  shows "((\<exists>msg. date_validation today v = Inl (ValueError msg)) \<longleftrightarrow> v > today + 365)
     \<and> (date_validation today v = Inr v \<longleftrightarrow> v \<le> today + 365)
     \<and> date_validation today (today + 365) = Inr (today + 365)
     \<and> (v < today \<longrightarrow> date_validation today v = Inr v)"
  using assms by (auto simp add: date_validation_def date_add_def)

theorem date_validation_bound_witness:
  "(1::int) \<le> 739000 \<and> (739000::int) + 365 \<le> date_max
   \<and> date_validation 739000 739365 = Inr 739365
   \<and> (\<exists>msg. date_validation 739000 739366 = Inl (ValueError msg))
   \<and> date_validation 739000 1 = Inr 1"
proof -
  have today: "(1::int) \<le> 739000" "(739000::int) + 365 \<le> date_max"
    by (simp_all add: date_max_def)
  from date_validation_bound [OF today, of 739365]
  have edge: "date_validation 739000 739365 = Inr 739365" by simp
  from date_validation_bound [OF today, of 739366]
  have late: "\<exists>msg. date_validation 739000 739366 = Inl (ValueError msg)" by simp
  from date_validation_bound [OF today, of 1]
  have past: "date_validation 739000 1 = Inr 1" by simp
  show ?thesis using today edge late past by blast
qed

section \<open>The session and the lookup tables\<close>

lemma next_fault_frame:
  "next_fault db = (b, db') \<Longrightarrow> working db' = working db \<and> committed db' = committed db"
  by (auto simp add: next_fault_def split: list.splits)

lemma flush_Inr:
  "flush f db = (Inr u, db') \<Longrightarrow> working db' = f (working db) \<and> committed db' = committed db"
  by (auto simp add: flush_def split: prod.splits bool.splits dest: next_fault_frame)

lemma flush_committed: "flush f db = (r, db') \<Longrightarrow> committed db' = committed db"
  by (auto simp add: flush_def split: prod.splits bool.splits dest: next_fault_frame)

lemma commit_Inr:
  "commit f db = (Inr u, db') \<Longrightarrow> working db' = f (working db) \<and> committed db' = f (working db)"
  by (auto simp add: commit_def split: prod.splits bool.splits dest: next_fault_frame)

lemma commit_Inl: "commit f db = (Inl e, db') \<Longrightarrow> committed db' = committed db"
  by (auto simp add: commit_def split: prod.splits bool.splits dest: next_fault_frame)



lemma table_table_update [simp]: "table model (table_update model f st) = f (table model st)"
  by (cases model) simp_all

lemma table_update_twice [simp]:
  "table_update model f (table_update model g st) = table_update model (\<lambda>rows. f (g rows)) st"
  by (cases model) simp_all

lemma table_update_frame [simp]:
  "movies (table_update model f st) = movies st"
  "countries (table_update model f st) = countries st"
  "movies_genres (table_update model f st) = movies_genres st"
  "movies_actors (table_update model f st) = movies_actors st"
  "movies_languages (table_update model f st) = movies_languages st"
  by (cases model; simp)+

lemma table_update_other:
  "model' \<noteq> model \<Longrightarrow> table model' (table_update model f st) = table model' st"
  by (cases model; cases model'; simp)

lemma find_append_first:
  "find P (xs @ ys) = (case find P xs of None \<Rightarrow> find P ys | Some x \<Rightarrow> Some x)"
  by (induction xs) auto

lemma find_None_names: "find (\<lambda>r. row_name r = n) rows = None \<longleftrightarrow> n \<notin> set (map row_name rows)"
  by (auto simp add: find_None_iff)

lemma fold_max_ge: "(a::int) \<le> fold max ids a \<and> (\<forall>x \<in> set ids. x \<le> fold max ids a)"
proof (induction ids arbitrary: a)
  case Nil
  then show ?case by simp
next
  case (Cons y ys)
  have "max y a \<le> fold max ys (max y a)" "\<forall>x \<in> set ys. x \<le> fold max ys (max y a)"
    using Cons.IH [of "max y a"] by simp_all
  then show ?case by auto
qed

lemma fresh_id_fresh: "fresh_id ids \<notin> set ids"
  using fold_max_ge [of 0 ids] by (auto simp add: fresh_id_def)

lemma find_fresh_last:
  "f x = k \<Longrightarrow> k \<notin> set (map f xs) \<Longrightarrow> find (\<lambda>y. f y = k) (xs @ [x]) = Some x"
  by (induction xs) auto

lemma request_eq:
  "request route st fl = (r, st') \<longleftrightarrow>
     (\<exists>db'. route \<lparr>committed = st, working = st, faults = fl\<rparr> = (r, db') \<and> st' = committed db')"
  by (auto simp add: request_def split: prod.splits)

section \<open>Resolving the country and the names\<close>

lemma resolve_country_committed:
  "resolve_country pc code db = (r, db') \<Longrightarrow> committed db' = committed db"
  by (auto simp add: resolve_country_def Let_def split: option.splits prod.splits sum.splits
      dest: flush_committed)

lemma resolve_country_Inr:
  assumes "resolve_country pc code db = (Inr c, db1)"
  shows "case find (\<lambda>c. country_code c = code) (countries (working db)) of
           Some c0 \<Rightarrow> c = c0 \<and> working db1 = working db
         | None \<Rightarrow> pc code \<noteq> None
             \<and> c = \<lparr>country_id = fresh_id (map country_id (countries (working db))),
                    country_code = code, country_name = pc code\<rparr>
             \<and> working db1 = (working db)\<lparr>countries := countries (working db) @ [c]\<rparr>"
  using assms
  by (auto simp add: resolve_country_def Let_def split: option.splits prod.splits sum.splits
      dest!: flush_Inr)


lemma get_or_create_loop_committed:
  "get_or_create_loop model names items db = (r, db') \<Longrightarrow> committed db' = committed db"
proof (induction names arbitrary: items db)
  case Nil
  then show ?case by simp
next
  case (Cons name names)
  show ?case
  proof (cases "find (\<lambda>r. row_name r = name) (table model (working db))")
    case (Some obj)
    then show ?thesis using Cons by simp
  next
    case None
    let ?obj = "\<lparr>row_id = fresh_id (map row_id (table model (working db))), row_name = name\<rparr>"
    obtain r1 db1 where fl: "flush (table_update model (\<lambda>rows. rows @ [?obj])) db = (r1, db1)"
      by (cases "flush (table_update model (\<lambda>rows. rows @ [?obj])) db")
    have c1: "committed db1 = committed db" using flush_committed [OF fl] .
    show ?thesis
    proof (cases r1)
      case (Inl e)
      then show ?thesis using Cons.prems None fl c1 by (simp add: Let_def)
    next
      case (Inr u)
      then have "get_or_create_loop model names (items @ [?obj]) db1 = (r, db')"
        using Cons.prems None fl by (simp add: Let_def)
      then show ?thesis using Cons.IH c1 by simp
    qed
  qed
qed

lemma get_or_create_loop_Inr:
  "get_or_create_loop model names items db = (Inr res, db') \<Longrightarrow>
   \<exists>new. working db' = table_update model (\<lambda>rows. rows @ new) (working db)
       \<and> distinct (map row_name new)
       \<and> set (map row_name new) \<subseteq> set names
       \<and> set (map row_name new) \<inter> set (map row_name (table model (working db))) = {}
       \<and> set names \<subseteq> set (map row_name (table model (working db) @ new))
       \<and> res = items @ map (\<lambda>n. the (find (\<lambda>r. row_name r = n) (table model (working db) @ new))) names"
proof (induction names arbitrary: items db)
  case Nil
  then have "working db' = table_update model (\<lambda>rows. rows @ []) (working db)"
    by (cases model) simp_all
  then show ?case using Nil by (intro exI [of _ "[]"]) simp
next
  case (Cons name names)
  let ?old = "table model (working db)"
  show ?case
  proof (cases "find (\<lambda>r. row_name r = name) ?old")
    case (Some obj)
    then have "get_or_create_loop model names (items @ [obj]) db = (Inr res, db')"
      using Cons.prems by simp
    from Cons.IH [OF this] obtain new where new:
      "working db' = table_update model (\<lambda>rows. rows @ new) (working db)"
      "distinct (map row_name new)" "set (map row_name new) \<subseteq> set names"
      "set (map row_name new) \<inter> set (map row_name ?old) = {}"
      "set names \<subseteq> set (map row_name (?old @ new))"
      "res = (items @ [obj]) @ map (\<lambda>n. the (find (\<lambda>r. row_name r = n) (?old @ new))) names"
      by blast
    have "the (find (\<lambda>r. row_name r = name) (?old @ new)) = obj"
      using Some by (simp add: find_append_first)
    moreover have "name \<in> set (map row_name ?old)"
      using Some find_None_names [of name ?old] by auto
    ultimately show ?thesis using new by (intro exI [of _ new]) auto
  next
    case None
    let ?obj = "\<lparr>row_id = fresh_id (map row_id ?old), row_name = name\<rparr>"
    obtain r1 db1 where fl: "flush (table_update model (\<lambda>rows. rows @ [?obj])) db = (r1, db1)"
      by (cases "flush (table_update model (\<lambda>rows. rows @ [?obj])) db")
    have "\<exists>u. r1 = Inr u" using Cons.prems None fl by (cases r1) (simp_all add: Let_def)
    then obtain u where r1: "r1 = Inr u" by blast
    have w1: "working db1 = table_update model (\<lambda>rows. rows @ [?obj]) (working db)"
      using flush_Inr fl r1 by blast
    have "get_or_create_loop model names (items @ [?obj]) db1 = (Inr res, db')"
      using Cons.prems None fl r1 by (simp add: Let_def)
    from Cons.IH [OF this] obtain new where new:
      "working db' = table_update model (\<lambda>rows. rows @ new) (working db1)"
      "distinct (map row_name new)" "set (map row_name new) \<subseteq> set names"
      "set (map row_name new) \<inter> set (map row_name (table model (working db1))) = {}"
      "set names \<subseteq> set (map row_name (table model (working db1) @ new))"
      "res = (items @ [?obj]) @ map (\<lambda>n. the (find (\<lambda>r. row_name r = n) (table model (working db1) @ new))) names"
      by blast
    have t1: "table model (working db1) = ?old @ [?obj]" using w1 by simp
    have notin: "name \<notin> set (map row_name ?old)" using None by (simp add: find_None_names)
    have "the (find (\<lambda>r. row_name r = name) (?old @ ?obj # new)) = ?obj"
      using None by (simp add: find_append_first)
    moreover have "working db' = table_update model (\<lambda>rows. rows @ ?obj # new) (working db)"
      using new(1) w1 by simp
    moreover have "distinct (map row_name (?obj # new))" using new(2,4) t1 by auto
    moreover have "set (map row_name (?obj # new)) \<subseteq> set (name # names)" using new(3) by auto
    moreover have "set (map row_name (?obj # new)) \<inter> set (map row_name ?old) = {}"
      using new(4) t1 notin by auto
    moreover have "set (name # names) \<subseteq> set (map row_name (?old @ ?obj # new))"
      using new(5) t1 by auto
    ultimately show ?thesis using new(6) t1 by (intro exI [of _ "?obj # new"]) simp
  qed
qed

lemma get_or_create_Inr:
  assumes "get_or_create model names db = (Inr res, db')"
  shows "\<exists>new. working db' = table_update model (\<lambda>rows. rows @ new) (working db)
       \<and> distinct (map row_name new)
       \<and> set (map row_name new) \<subseteq> set names
       \<and> set (map row_name new) \<inter> set (map row_name (table model (working db))) = {}
       \<and> set names \<subseteq> set (map row_name (table model (working db) @ new))
       \<and> res = map (\<lambda>n. the (find (\<lambda>r. row_name r = n) (table model (working db) @ new))) names"
  using get_or_create_loop_Inr [of model names "[]" db res db'] assms
  by (simp add: get_or_create_def)


section \<open>Creating a movie: what a request does\<close>

lemma post_movie_steps:
  assumes "post_movie pc movie db = (Inr d, db')"
  obtains country db1 genre_rows db2 actor_rows db3 language_rows db4 u where
    "find (\<lambda>m. movie_name m = Some (create_name movie) \<and> movie_date m = Some (create_date movie))
       (movies (working db)) = None"
    "resolve_country pc (create_country movie) db = (Inr country, db1)"
    "get_or_create GenreModel (create_genres movie) db1 = (Inr genre_rows, db2)"
    "get_or_create ActorModel (create_actors movie) db2 = (Inr actor_rows, db3)"
    "get_or_create LanguageModel (create_languages movie) db3 = (Inr language_rows, db4)"
    "commit (add_movie (new_movie_row movie (fresh_id (map movie_id (movies (working db4)))) (country_id country))
        genre_rows actor_rows language_rows) db4 = (Inr u, db')"
    "d = load_movie (working db') (fresh_id (map movie_id (movies (working db4))))"
  using assms
  by (auto simp add: post_movie_def Let_def new_movie_row_def
      split: option.splits prod.splits sum.splits)

lemma post_movie_Inr:
  assumes "post_movie pc movie db = (Inr d, db')"
  shows "\<exists>country new.
      find (\<lambda>m. movie_name m = Some (create_name movie) \<and> movie_date m = Some (create_date movie))
        (movies (working db)) = None
    \<and> (case find (\<lambda>c. country_code c = create_country movie) (countries (working db)) of
         Some c0 \<Rightarrow> country = c0 \<and> countries (committed db') = countries (working db)
       | None \<Rightarrow> pc (create_country movie) \<noteq> None
           \<and> country = \<lparr>country_id = fresh_id (map country_id (countries (working db))),
                  country_code = create_country movie, country_name = pc (create_country movie)\<rparr>
           \<and> countries (committed db') = countries (working db) @ [country])
    \<and> movies (committed db') = movies (working db) @
         [new_movie_row movie (fresh_id (map movie_id (movies (working db)))) (country_id country)]
    \<and> (\<forall>model. table model (committed db') = table model (working db) @ new model
          \<and> distinct (map row_name (new model))
          \<and> set (map row_name (new model)) \<subseteq> set (requested model movie)
          \<and> set (map row_name (new model)) \<inter> set (map row_name (table model (working db))) = {}
          \<and> set (requested model movie) \<subseteq> set (map row_name (table model (committed db')))
          \<and> links model (committed db') = links model (working db) @
               remdups (map (\<lambda>n. (fresh_id (map movie_id (movies (working db))),
                         row_id (the (find (\<lambda>r. row_name r = n) (table model (committed db'))))))
                 (requested model movie)))
    \<and> d = load_movie (committed db') (fresh_id (map movie_id (movies (working db))))"
proof -
  from post_movie_steps [OF assms]
  obtain country db1 genre_rows db2 actor_rows db3 language_rows db4 u where
    nf: "find (\<lambda>m. movie_name m = Some (create_name movie) \<and> movie_date m = Some (create_date movie))
       (movies (working db)) = None"
    and rc: "resolve_country pc (create_country movie) db = (Inr country, db1)"
    and g: "get_or_create GenreModel (create_genres movie) db1 = (Inr genre_rows, db2)"
    and a: "get_or_create ActorModel (create_actors movie) db2 = (Inr actor_rows, db3)"
    and l: "get_or_create LanguageModel (create_languages movie) db3 = (Inr language_rows, db4)"
    and c: "commit (add_movie (new_movie_row movie (fresh_id (map movie_id (movies (working db4)))) (country_id country))
        genre_rows actor_rows language_rows) db4 = (Inr u, db')"
    and d: "d = load_movie (working db') (fresh_id (map movie_id (movies (working db4))))"
    by blast
  from get_or_create_Inr [OF g] obtain gnew where gnew:
    "working db2 = table_update GenreModel (\<lambda>rows. rows @ gnew) (working db1)"
    "distinct (map row_name gnew)" "set (map row_name gnew) \<subseteq> set (create_genres movie)"
    "set (map row_name gnew) \<inter> set (map row_name (table GenreModel (working db1))) = {}"
    "set (create_genres movie) \<subseteq> set (map row_name (table GenreModel (working db1) @ gnew))"
    "genre_rows = map (\<lambda>n. the (find (\<lambda>r. row_name r = n) (table GenreModel (working db1) @ gnew)))
       (create_genres movie)"
    by blast
  from get_or_create_Inr [OF a] obtain anew where anew:
    "working db3 = table_update ActorModel (\<lambda>rows. rows @ anew) (working db2)"
    "distinct (map row_name anew)" "set (map row_name anew) \<subseteq> set (create_actors movie)"
    "set (map row_name anew) \<inter> set (map row_name (table ActorModel (working db2))) = {}"
    "set (create_actors movie) \<subseteq> set (map row_name (table ActorModel (working db2) @ anew))"
    "actor_rows = map (\<lambda>n. the (find (\<lambda>r. row_name r = n) (table ActorModel (working db2) @ anew)))
       (create_actors movie)"
    by blast
  from get_or_create_Inr [OF l] obtain lnew where lnew:
    "working db4 = table_update LanguageModel (\<lambda>rows. rows @ lnew) (working db3)"
    "distinct (map row_name lnew)" "set (map row_name lnew) \<subseteq> set (create_languages movie)"
    "set (map row_name lnew) \<inter> set (map row_name (table LanguageModel (working db3))) = {}"
    "set (create_languages movie) \<subseteq> set (map row_name (table LanguageModel (working db3) @ lnew))"
    "language_rows = map (\<lambda>n. the (find (\<lambda>r. row_name r = n) (table LanguageModel (working db3) @ lnew)))
       (create_languages movie)"
    by blast
  let ?mid = "fresh_id (map movie_id (movies (working db)))"
  let ?new = "\<lambda>model. case model of GenreModel \<Rightarrow> gnew | ActorModel \<Rightarrow> anew | LanguageModel \<Rightarrow> lnew"
  have w1: "movies (working db1) = movies (working db)"
    "genres (working db1) = genres (working db)"
    "actors (working db1) = actors (working db)"
    "languages (working db1) = languages (working db)"
    "movies_genres (working db1) = movies_genres (working db)"
    "movies_actors (working db1) = movies_actors (working db)"
    "movies_languages (working db1) = movies_languages (working db)"
    using resolve_country_Inr [OF rc]
    by (auto split: option.splits)
  have fin: "committed db' = working db'"
    "working db' = add_movie (new_movie_row movie (fresh_id (map movie_id (movies (working db4)))) (country_id country))
        genre_rows actor_rows language_rows (working db4)"
    using commit_Inr [OF c] by simp_all
  have m4: "movies (working db4) = movies (working db)"
    by (simp add: lnew(1) anew(1) gnew(1) w1)
  have c4: "countries (working db4) = countries (working db1)"
    by (simp add: lnew(1) anew(1) gnew(1))
  have country: "case find (\<lambda>c. country_code c = create_country movie) (countries (working db)) of
         Some c0 \<Rightarrow> country = c0 \<and> countries (committed db') = countries (working db)
       | None \<Rightarrow> pc (create_country movie) \<noteq> None
           \<and> country = \<lparr>country_id = fresh_id (map country_id (countries (working db))),
                  country_code = create_country movie, country_name = pc (create_country movie)\<rparr>
           \<and> countries (committed db') = countries (working db) @ [country]"
    using resolve_country_Inr [OF rc] c4
    by (auto simp add: fin add_movie_def split: option.splits)
  have mv: "movies (committed db') = movies (working db) @
         [new_movie_row movie ?mid (country_id country)]"
    by (simp add: fin add_movie_def m4)
  have tabs: "table model (committed db') = table model (working db) @ ?new model
          \<and> distinct (map row_name (?new model))
          \<and> set (map row_name (?new model)) \<subseteq> set (requested model movie)
          \<and> set (map row_name (?new model)) \<inter> set (map row_name (table model (working db))) = {}
          \<and> set (requested model movie) \<subseteq> set (map row_name (table model (committed db')))
          \<and> links model (committed db') = links model (working db) @
               remdups (map (\<lambda>n. (?mid, row_id (the (find (\<lambda>r. row_name r = n) (table model (committed db'))))))
                 (requested model movie))" for model
  proof (cases model)
    case GenreModel
    then show ?thesis
      using gnew(2,3,4,5)
      by (simp add: fin add_movie_def m4 lnew(1) anew(1) gnew(1,6) w1 new_movie_row_def comp_def)
  next
    case ActorModel
    then show ?thesis
      using anew(2,3,4,5)
      by (simp add: fin add_movie_def m4 lnew(1) anew(1,6) gnew(1) w1 new_movie_row_def comp_def)
  next
    case LanguageModel
    then show ?thesis
      using lnew(2,3,4,5)
      by (simp add: fin add_movie_def m4 lnew(1,6) anew(1) gnew(1) w1 new_movie_row_def comp_def)
  qed
  have dd: "d = load_movie (committed db') ?mid" using d by (simp add: fin(1) m4)
  show ?thesis
    using nf country mv tabs dd
    by (intro exI [of _ country] exI [of _ ?new]) blast
qed

lemma post_movie_Inl_committed:
  assumes "post_movie pc movie db = (Inl e, db')"
  shows "committed db' = committed db"
  using assms
  unfolding post_movie_def get_or_create_def Let_def
  by (auto split: option.splits prod.splits sum.splits
      dest!: resolve_country_committed get_or_create_loop_committed commit_Inl)

lemma post_movie_request_Inr:
  assumes "request (post_movie pc movie) st fl = (Inr d, st')"
  shows "\<exists>country new detail.
      find (\<lambda>m. movie_name m = Some (create_name movie) \<and> movie_date m = Some (create_date movie))
        (movies st) = None
    \<and> (case find (\<lambda>c. country_code c = create_country movie) (countries st) of
         Some c0 \<Rightarrow> country = c0 \<and> countries st' = countries st
       | None \<Rightarrow> pc (create_country movie) \<noteq> None
           \<and> country = \<lparr>country_id = fresh_id (map country_id (countries st)),
                  country_code = create_country movie, country_name = pc (create_country movie)\<rparr>
           \<and> countries st' = countries st @ [country])
    \<and> movies st' = movies st @ [detail_movie detail]
    \<and> detail_movie detail
         = new_movie_row movie (fresh_id (map movie_id (movies st))) (country_id country)
    \<and> (\<forall>model. table model st' = table model st @ new model
          \<and> distinct (map row_name (new model))
          \<and> set (map row_name (new model)) \<subseteq> set (requested model movie)
          \<and> set (map row_name (new model)) \<inter> set (map row_name (table model st)) = {}
          \<and> set (requested model movie) \<subseteq> set (map row_name (table model st'))
          \<and> links model st' = links model st @
               remdups (map (\<lambda>n. (fresh_id (map movie_id (movies st)),
                         row_id (the (find (\<lambda>r. row_name r = n) (table model st')))))
                 (requested model movie)))
    \<and> d = Some detail"
proof -
  let ?db = "\<lparr>committed = st, working = st, faults = fl\<rparr>"
  let ?mid = "fresh_id (map movie_id (movies st))"
  from assms obtain db' where run: "post_movie pc movie ?db = (Inr d, db')" and st': "st' = committed db'"
    by (auto simp add: request_eq)
  from post_movie_Inr [OF run] obtain country new where
    nf: "find (\<lambda>m. movie_name m = Some (create_name movie) \<and> movie_date m = Some (create_date movie))
        (movies st) = None"
    and co: "case find (\<lambda>c. country_code c = create_country movie) (countries st) of
         Some c0 \<Rightarrow> country = c0 \<and> countries st' = countries st
       | None \<Rightarrow> pc (create_country movie) \<noteq> None
           \<and> country = \<lparr>country_id = fresh_id (map country_id (countries st)),
                  country_code = create_country movie, country_name = pc (create_country movie)\<rparr>
           \<and> countries st' = countries st @ [country]"
    and mv: "movies st' = movies st @ [new_movie_row movie ?mid (country_id country)]"
    and tb: "\<forall>model. table model st' = table model st @ new model
          \<and> distinct (map row_name (new model))
          \<and> set (map row_name (new model)) \<subseteq> set (requested model movie)
          \<and> set (map row_name (new model)) \<inter> set (map row_name (table model st)) = {}
          \<and> set (requested model movie) \<subseteq> set (map row_name (table model st'))
          \<and> links model st' = links model st @
               remdups (map (\<lambda>n. (?mid, row_id (the (find (\<lambda>r. row_name r = n) (table model st')))))
                 (requested model movie))"
    and d: "d = load_movie st' ?mid"
    unfolding st' by (simp only: session.simps) blast
  let ?row = "new_movie_row movie ?mid (country_id country)"
  have "find (\<lambda>m. movie_id m = ?mid) (movies st @ [?row]) = Some ?row"
    using fresh_id_fresh [of "map movie_id (movies st)"]
    by (intro find_fresh_last) (simp_all add: new_movie_row_def)
  then obtain detail where dt: "d = Some detail" "detail_movie detail = ?row"
    using d mv by (simp add: load_movie_def)
  have mv': "movies st' = movies st @ [detail_movie detail]" using mv dt by simp
  show ?thesis
    by (intro exI [of _ country] exI [of _ new] exI [of _ detail] conjI)
      (rule nf co mv' dt tb)+
qed


lemma post_dune:
  "request (post_movie example_pycountry dune) catalog [] = (Inr (Some dune_detail), catalog_with_dune)"
  by (simp add: route_defs example_defs)

lemma post_amelie:
  "request (post_movie example_pycountry amelie) catalog []
     = (Inr (Some amelie_detail), catalog_with_amelie)"
  by (simp add: route_defs example_defs)

lemma post_amelie_rejected:
  "request (post_movie example_pycountry amelie) catalog [False, False, True]
     = (Inl StoreError, catalog)"
  by (simp add: route_defs example_defs)



text \<open>
  C3. A create request for a (name, date) pair that a movie of the store already has fails
  with Conflict (409) and leaves the store as it was. After a create request that succeeded,
  a second one with the same name and date fails with Conflict.
\<close>

theorem post_movie_conflict:
  "((\<exists>m \<in> set (movies st). movie_name m = Some (create_name movie)
        \<and> movie_date m = Some (create_date movie))
      \<longrightarrow> request (post_movie pycountry movie) st fl = (Inl (HTTPException 409), st))
   \<and> (request (post_movie pycountry movie) st fl = (Inr d, st')
        \<and> create_name movie2 = create_name movie \<and> create_date movie2 = create_date movie
      \<longrightarrow> request (post_movie pycountry2 movie2) st' fl2 = (Inl (HTTPException 409), st'))"
proof -
  have first: "request (post_movie pc mv) s f = (Inl (HTTPException 409), s)"
    if "\<exists>m \<in> set (movies s). movie_name m = Some (create_name mv)
        \<and> movie_date m = Some (create_date mv)" for pc mv s f
  proof -
    have "find (\<lambda>m. movie_name m = Some (create_name mv) \<and> movie_date m = Some (create_date mv))
            (movies s) \<noteq> None"
      using that by (auto simp add: find_None_iff)
    then show ?thesis by (auto simp add: request_def post_movie_def)
  qed
  have second: "request (post_movie pycountry2 movie2) st' fl2 = (Inl (HTTPException 409), st')"
    if ok: "request (post_movie pycountry movie) st fl = (Inr d, st')"
      and same: "create_name movie2 = create_name movie" "create_date movie2 = create_date movie"
  proof -
    from post_movie_request_Inr [OF ok] obtain country :: CountryModel
      and detail :: MovieDetail where
      "movies st' = movies st @ [detail_movie detail]"
      "detail_movie detail
         = new_movie_row movie (fresh_id (map movie_id (movies st))) (country_id country)"
      by blast
    then have "\<exists>m \<in> set (movies st'). movie_name m = Some (create_name movie2)
        \<and> movie_date m = Some (create_date movie2)"
      using same by (simp add: new_movie_row_def)
    then show ?thesis by (rule first)
  qed
  show ?thesis using first second by blast
qed

theorem post_movie_conflict_witness:
  "(\<exists>m \<in> set (movies catalog_with_dune). movie_name m = Some (create_name dune)
        \<and> movie_date m = Some (create_date dune))
   \<and> request (post_movie example_pycountry dune) catalog [] = (Inr (Some dune_detail), catalog_with_dune)
   \<and> request (post_movie example_pycountry dune) catalog_with_dune []
       = (Inl (HTTPException 409), catalog_with_dune)"
proof -
  have existing: "\<exists>m \<in> set (movies catalog_with_dune). movie_name m = Some (create_name dune)
        \<and> movie_date m = Some (create_date dune)"
    by (simp add: example_defs)
  have again: "request (post_movie example_pycountry dune) catalog_with_dune []
       = (Inl (HTTPException 409), catalog_with_dune)"
    using post_movie_conflict [where st = catalog and movie = dune and pycountry = example_pycountry
        and fl = "[]" and d = "Some dune_detail" and st' = catalog_with_dune and ?movie2.0 = dune
        and ?pycountry2.0 = example_pycountry and ?fl2.0 = "[]"] post_dune
    by simp
  show ?thesis by (intro conjI existing post_dune again)
qed

text \<open>
  C5. A create request is all or nothing. If it fails at any step (the conflict check, the
  country, a flush of a new country, genre, actor or language, or the final commit), the
  store is what it was before the request. If it succeeds, the store holds the movie, a
  country row of the requested code that the movie references, and for every requested
  genre, actor and language name a row of that name linked to the movie.
\<close>

theorem post_movie_all_or_nothing:
  "(request (post_movie pycountry movie) st fl = (Inl e, st') \<longrightarrow> st' = st)
   \<and> (request (post_movie pycountry movie) st fl = (Inr d, st') \<longrightarrow>
        (\<exists>detail. d = Some detail
           \<and> detail_movie detail \<in> set (movies st')
           \<and> (\<exists>country \<in> set (countries st'). country_code country = create_country movie
                 \<and> movie_country_id (detail_movie detail) = country_id country)
           \<and> (\<forall>model. \<forall>name \<in> set (requested model movie).
                 \<exists>obj \<in> set (table model st'). row_name obj = name
                   \<and> (movie_id (detail_movie detail), row_id obj) \<in> set (links model st'))))"
proof -
  have fail: "st' = st" if "request (post_movie pycountry movie) st fl = (Inl e, st')"
    using that post_movie_Inl_committed [of pycountry movie _ e]
    by (auto simp add: request_eq)
  have ok: "\<exists>detail. d = Some detail
           \<and> detail_movie detail \<in> set (movies st')
           \<and> (\<exists>country \<in> set (countries st'). country_code country = create_country movie
                 \<and> movie_country_id (detail_movie detail) = country_id country)
           \<and> (\<forall>model. \<forall>name \<in> set (requested model movie).
                 \<exists>obj \<in> set (table model st'). row_name obj = name
                   \<and> (movie_id (detail_movie detail), row_id obj) \<in> set (links model st'))"
    if run: "request (post_movie pycountry movie) st fl = (Inr d, st')"
  proof -
    let ?mid = "fresh_id (map movie_id (movies st))"
    from post_movie_request_Inr [OF run] obtain country :: CountryModel and new :: "lookup \<Rightarrow> NamedModel list"
      and detail :: MovieDetail where
      co: "case find (\<lambda>c. country_code c = create_country movie) (countries st) of
         Some c0 \<Rightarrow> country = c0 \<and> countries st' = countries st
       | None \<Rightarrow> pycountry (create_country movie) \<noteq> None
           \<and> country = \<lparr>country_id = fresh_id (map country_id (countries st)),
                  country_code = create_country movie, country_name = pycountry (create_country movie)\<rparr>
           \<and> countries st' = countries st @ [country]"
      and mv: "movies st' = movies st @ [detail_movie detail]"
      and dm: "detail_movie detail = new_movie_row movie ?mid (country_id country)"
      and tb: "\<And>model. set (requested model movie) \<subseteq> set (map row_name (table model st'))"
        "\<And>model. links model st' = links model st @
               remdups (map (\<lambda>n. (?mid, row_id (the (find (\<lambda>r. row_name r = n) (table model st')))))
                 (requested model movie))"
      and d: "d = Some detail"
      by blast
    have c: "country \<in> set (countries st') \<and> country_code country = create_country movie"
      using co by (auto split: option.splits simp add: find_Some_iff)
    have l: "\<exists>obj \<in> set (table model st'). row_name obj = name
                   \<and> (movie_id (detail_movie detail), row_id obj) \<in> set (links model st')"
      if name: "name \<in> set (requested model movie)" for model name
    proof -
      have "find (\<lambda>r. row_name r = name) (table model st') \<noteq> None"
        using tb(1) [of model] name find_None_names [of name "table model st'"] by auto
      then obtain obj where obj: "find (\<lambda>r. row_name r = name) (table model st') = Some obj"
        by blast
      then have "obj \<in> set (table model st') \<and> row_name obj = name"
        by (auto simp add: find_Some_iff)
      moreover have "(?mid, row_id obj) \<in> set (links model st')"
        using name obj by (subst tb(2)) force
      ultimately show ?thesis by (auto simp add: dm new_movie_row_def)
    qed
    show ?thesis
      using d mv c l dm by (auto simp add: new_movie_row_def)
  qed
  show ?thesis using fail ok by blast
qed

theorem post_movie_all_or_nothing_witness:
  "request (post_movie example_pycountry amelie) catalog [False, False, True] = (Inl StoreError, catalog)
   \<and> countries (working (snd (post_movie example_pycountry amelie
        \<lparr>committed = catalog, working = catalog, faults = [False, False, True]\<rparr>)))
       = countries catalog @ [\<lparr>country_id = 2, country_code = ''FRA'', country_name = Some ''France''\<rparr>]
   \<and> snd (request (post_movie example_pycountry amelie) catalog [False, False, True]) = catalog
   \<and> request (post_movie example_pycountry amelie) catalog []
       = (Inr (Some amelie_detail), catalog_with_amelie)
   \<and> detail_movie amelie_detail \<in> set (movies catalog_with_amelie)
   \<and> (\<exists>country \<in> set (countries catalog_with_amelie). country_code country = create_country amelie
         \<and> movie_country_id (detail_movie amelie_detail) = country_id country)"
proof -
  have partial: "countries (working (snd (post_movie example_pycountry amelie
        \<lparr>committed = catalog, working = catalog, faults = [False, False, True]\<rparr>)))
       = countries catalog @ [\<lparr>country_id = 2, country_code = ''FRA'', country_name = Some ''France''\<rparr>]"
    by (simp add: route_defs example_defs)
  have failed: "request (post_movie example_pycountry amelie) catalog [False, False, True]
      = (Inl StoreError, snd (request (post_movie example_pycountry amelie) catalog [False, False, True]))"
    using post_amelie_rejected by simp
  from post_movie_all_or_nothing [where pycountry = example_pycountry and movie = amelie
        and st = catalog and fl = "[False, False, True]" and e = StoreError
        and st' = "snd (request (post_movie example_pycountry amelie) catalog [False, False, True])"]
    failed
  have unchanged: "snd (request (post_movie example_pycountry amelie) catalog [False, False, True])
      = catalog"
    by blast
  from post_movie_all_or_nothing [where pycountry = example_pycountry and movie = amelie
        and st = catalog and fl = "[]" and d = "Some amelie_detail" and st' = catalog_with_amelie]
    post_amelie
  have stored: "detail_movie amelie_detail \<in> set (movies catalog_with_amelie)
     \<and> (\<exists>country \<in> set (countries catalog_with_amelie). country_code country = create_country amelie
         \<and> movie_country_id (detail_movie amelie_detail) = country_id country)"
    by auto
  show ?thesis using post_amelie_rejected partial unchanged post_amelie stored by blast
qed







section \<open>Updating and deleting: what a request does\<close>

lemma filter_key_absent: "k \<notin> set (map f xs) \<Longrightarrow> filter (\<lambda>y. f y = k) xs = []"
  by (induction xs) auto

lemma filter_key_distinct:
  "distinct (map f xs) \<Longrightarrow> x \<in> set xs \<Longrightarrow> filter (\<lambda>y. f y = f x) xs = [x]"
proof (induction xs)
  case Nil
  then show ?case by simp
next
  case (Cons a xs)
  show ?case
  proof (cases "x = a")
    case True
    then have "f x \<notin> set (map f xs)" using Cons.prems(1) by simp
    then show ?thesis using True by (simp add: filter_key_absent)
  next
    case False
    then have "x \<in> set xs" using Cons.prems(2) by simp
    moreover have "f a \<noteq> f x" using Cons.prems(1) \<open>x \<in> set xs\<close> by auto
    ultimately show ?thesis using Cons by simp
  qed
qed

lemma filter_singleton_key:
  assumes "filter (\<lambda>y. f y = k) xs = [x]"
  shows "f x = k \<and> x \<in> set xs \<and> (\<forall>y \<in> set xs. f y = k \<longrightarrow> y = x)"
proof -
  have "set (filter (\<lambda>y. f y = k) xs) = {x}" using assms by simp
  then show ?thesis by auto
qed

lemma filter_singleton_find: "filter P xs = [x] \<Longrightarrow> find P xs = Some x"
  by (induction xs) (auto split: if_splits)

lemma setattr_fold:
  fixes old :: MovieModel and upd :: MovieUpdateSchema
  defines "new \<equiv> fold (\<lambda>kv m. setattr m kv) (dict_exclude_unset upd) old"
  shows "movie_name new = (if ''name'' \<in> fields_set upd then update_name upd else movie_name old)"
    and "movie_date new = (if ''date'' \<in> fields_set upd then None else movie_date old)"
    and "movie_score new = (if ''score'' \<in> fields_set upd then update_score upd else movie_score old)"
    and "movie_overview new
           = (if ''overview'' \<in> fields_set upd then update_overview upd else movie_overview old)"
    and "movie_status new
           = (if ''status'' \<in> fields_set upd then update_status upd else movie_status old)"
    and "movie_budget new
           = (if ''budget'' \<in> fields_set upd then update_budget upd else movie_budget old)"
    and "movie_revenue new
           = (if ''revenue'' \<in> fields_set upd then update_revenue upd else movie_revenue old)"
    and "movie_id new = movie_id old"
    and "movie_country_id new = movie_country_id old"
  unfolding new_def dict_exclude_unset_def by simp_all

lemma update_movie_request:
  assumes "filter (\<lambda>m. movie_id m = mid) (movies st) = [old]"
  shows "request (update_movie mid upd) st fl =
     (if take 1 fl = [True] then (Inl StoreError, st)
      else (Inr ''Movie updated successfully.'',
            st\<lparr>movies := map (\<lambda>m. if movie_id m = mid
                   then fold (\<lambda>kv m. setattr m kv) (dict_exclude_unset upd) old else m) (movies st)\<rparr>))"
proof -
  have "movie_id old = mid" using filter_singleton_key [OF assms] by simp
  then show ?thesis
    using assms
    by (cases fl)
      (auto simp add: request_def update_movie_def scalar_one_or_none_def commit_def next_fault_def
        Let_def)
qed

lemma update_movie_request_other:
  assumes "\<forall>old. filter (\<lambda>m. movie_id m = mid) (movies st) \<noteq> [old]"
  shows "snd (request (update_movie mid upd) st fl) = st"
  using assms
  by (auto simp add: request_def update_movie_def scalar_one_or_none_def split: list.splits)

lemma update_movie_request_fails:
  assumes "\<forall>old. filter (\<lambda>m. movie_id m = mid) (movies st) \<noteq> [old]"
  shows "\<exists>e. request (update_movie mid upd) st fl = (Inl e, st)"
  using assms
  by (auto simp add: request_def update_movie_def scalar_one_or_none_def split: list.splits)

lemma delete_movie_request_fails:
  assumes "\<forall>old. filter (\<lambda>m. movie_id m = mid) (movies st) \<noteq> [old]"
  shows "\<exists>e. request (delete_movie mid) st fl = (Inl e, st)"
  using assms
  by (auto simp add: request_def delete_movie_def scalar_one_or_none_def split: list.splits)

lemma delete_movie_request:
  assumes "filter (\<lambda>m. movie_id m = mid) (movies st) = [old]"
  shows "request (delete_movie mid) st fl =
     (if take 1 fl = [True] then (Inl StoreError, st) else (Inr (), delete_row mid st))"
proof -
  have "movie_id old = mid" using filter_singleton_key [OF assms] by simp
  then show ?thesis
    using assms
    by (cases fl)
      (auto simp add: request_def delete_movie_def scalar_one_or_none_def commit_def next_fault_def)
qed

lemma update_score_only:
  "request (update_movie 1 score_only) catalog [] = (Inr ''Movie updated successfully.'', alien_rescored)"
  by (simp add: request_def update_movie_def scalar_one_or_none_def commit_def next_fault_def
      dict_exclude_unset_def score_only_def alien_rescored_def Let_def example_defs)

lemma update_null_overview:
  "request (update_movie 1 null_overview) catalog []
     = (Inr ''Movie updated successfully.'', alien_renamed)"
  by (simp add: request_def update_movie_def scalar_one_or_none_def commit_def next_fault_def
      dict_exclude_unset_def null_overview_def alien_renamed_def Let_def example_defs)

lemma delete_dune: "request (delete_movie 2) catalog_with_dune [] = (Inr (), dune_deleted)"
  by (simp add: request_def delete_movie_def scalar_one_or_none_def commit_def next_fault_def
      delete_row_def dune_deleted_def example_defs)

lemma delete_missing: "request (delete_movie 7) catalog_with_dune [] = (Inl (HTTPException 404), catalog_with_dune)"
  by (simp add: request_def delete_movie_def scalar_one_or_none_def example_defs)

text \<open>
  C4. An update request on an existing movie that succeeds replaces that movie and changes
  nothing else in the store. Each of the seven fields of the new row is the value of the
  payload when the payload gives the field (for \<open>date\<close> the schema admits no value but
  \<open>None\<close>), and the prior value when it does not; the id and the country reference are the
  prior ones. A payload that gives only \<open>score\<close> changes the score and no other field. The
  request succeeds whenever ids are unique and the store does not reject the commit.
\<close>

theorem update_movie_partial:
  assumes "find (\<lambda>m. movie_id m = mid) (movies st) = Some old"
  shows "(request (update_movie mid upd) st fl = (Inr ack, st') \<longrightarrow>
     (\<exists>new. find (\<lambda>m. movie_id m = mid) (movies st') = Some new
     \<and> st' = st\<lparr>movies := map (\<lambda>m. if movie_id m = mid then new else m) (movies st)\<rparr>
     \<and> movie_name new = (if ''name'' \<in> fields_set upd then update_name upd else movie_name old)
     \<and> movie_date new = (if ''date'' \<in> fields_set upd then None else movie_date old)
     \<and> movie_score new = (if ''score'' \<in> fields_set upd then update_score upd else movie_score old)
     \<and> movie_overview new
         = (if ''overview'' \<in> fields_set upd then update_overview upd else movie_overview old)
     \<and> movie_status new
         = (if ''status'' \<in> fields_set upd then update_status upd else movie_status old)
     \<and> movie_budget new
         = (if ''budget'' \<in> fields_set upd then update_budget upd else movie_budget old)
     \<and> movie_revenue new
         = (if ''revenue'' \<in> fields_set upd then update_revenue upd else movie_revenue old)
     \<and> movie_id new = movie_id old
     \<and> movie_country_id new = movie_country_id old
     \<and> (fields_set upd = {''score''} \<longrightarrow> new = old\<lparr>movie_score := update_score upd\<rparr>)))
   \<and> (distinct (map movie_id (movies st)) \<and> take 1 fl \<noteq> [True] \<longrightarrow>
        (\<exists>st'. request (update_movie mid upd) st fl = (Inr ''Movie updated successfully.'', st')))"
proof -
  let ?new = "fold (\<lambda>kv m. setattr m kv) (dict_exclude_unset upd) old"
  have old: "old \<in> set (movies st)" "movie_id old = mid"
    using assms by (auto simp add: find_Some_iff)
  have changed: "\<exists>new. find (\<lambda>m. movie_id m = mid) (movies st') = Some new
     \<and> st' = st\<lparr>movies := map (\<lambda>m. if movie_id m = mid then new else m) (movies st)\<rparr>
     \<and> movie_name new = (if ''name'' \<in> fields_set upd then update_name upd else movie_name old)
     \<and> movie_date new = (if ''date'' \<in> fields_set upd then None else movie_date old)
     \<and> movie_score new = (if ''score'' \<in> fields_set upd then update_score upd else movie_score old)
     \<and> movie_overview new
         = (if ''overview'' \<in> fields_set upd then update_overview upd else movie_overview old)
     \<and> movie_status new
         = (if ''status'' \<in> fields_set upd then update_status upd else movie_status old)
     \<and> movie_budget new
         = (if ''budget'' \<in> fields_set upd then update_budget upd else movie_budget old)
     \<and> movie_revenue new
         = (if ''revenue'' \<in> fields_set upd then update_revenue upd else movie_revenue old)
     \<and> movie_id new = movie_id old
     \<and> movie_country_id new = movie_country_id old
     \<and> (fields_set upd = {''score''} \<longrightarrow> new = old\<lparr>movie_score := update_score upd\<rparr>)"
    if run: "request (update_movie mid upd) st fl = (Inr ack, st')"
  proof -
    obtain x where x: "filter (\<lambda>m. movie_id m = mid) (movies st) = [x]"
      using run update_movie_request_fails [of mid st upd fl] by auto
    have one: "filter (\<lambda>m. movie_id m = mid) (movies st) = [old]"
      using x filter_singleton_find [OF x] assms by simp
    have st': "st' = st\<lparr>movies := map (\<lambda>m. if movie_id m = mid then ?new else m) (movies st)\<rparr>"
      using run update_movie_request [OF one, of upd fl] by (simp split: if_splits)
    have id: "movie_id ?new = mid" using old(2) by (simp add: setattr_fold)
    have "find (\<lambda>m. movie_id m = mid) (map (\<lambda>m. if movie_id m = mid then ?new else m) ms)
            = Some ?new" if "find (\<lambda>m. movie_id m = mid) ms = Some old" for ms
      using that id by (induction ms) (auto split: if_splits)
    then have found: "find (\<lambda>m. movie_id m = mid) (movies st') = Some ?new"
      using assms by (simp add: st')
    have score: "?new = old\<lparr>movie_score := update_score upd\<rparr>" if "fields_set upd = {''score''}"
      using that by (simp add: dict_exclude_unset_def)
    show ?thesis
      using found st' score
      by (intro exI [of _ ?new]) (simp only: setattr_fold, simp)
  qed
  have returns: "\<exists>st'. request (update_movie mid upd) st fl = (Inr ''Movie updated successfully.'', st')"
    if "distinct (map movie_id (movies st))" "take 1 fl \<noteq> [True]"
  proof -
    have "filter (\<lambda>m. movie_id m = mid) (movies st) = [old]"
      using filter_key_distinct [OF that(1) old(1)] old(2) by simp
    from update_movie_request [OF this, of upd fl] show ?thesis using that(2) by simp
  qed
  show ?thesis using changed returns by blast
qed

theorem update_movie_partial_witness:
  "find (\<lambda>m. movie_id m = 1) (movies catalog) = Some (example_movie 1 ''Alien'' 722000)
   \<and> request (update_movie 1 score_only) catalog [] = (Inr ''Movie updated successfully.'', alien_rescored)
   \<and> fields_set score_only = {''score''}
   \<and> find (\<lambda>m. movie_id m = 1) (movies alien_rescored)
       = Some ((example_movie 1 ''Alien'' 722000)\<lparr>movie_score := update_score score_only\<rparr>)
   \<and> movies alien_rescored = [(example_movie 1 ''Alien'' 722000)\<lparr>movie_score := Some 55\<rparr>]
   \<and> distinct (map movie_id (movies catalog)) \<and> take 1 ([] :: bool list) \<noteq> [True]
   \<and> (\<exists>st'. request (update_movie 1 score_only) catalog []
         = (Inr ''Movie updated successfully.'', st'))"
proof -
  have f: "find (\<lambda>m. movie_id m = 1) (movies catalog) = Some (example_movie 1 ''Alien'' 722000)"
    by (simp add: example_defs)
  have only: "fields_set score_only = {''score''}" by (simp add: score_only_def)
  have rows: "movies alien_rescored = [(example_movie 1 ''Alien'' 722000)\<lparr>movie_score := Some 55\<rparr>]"
    by (simp add: alien_rescored_def)
  have ok: "distinct (map movie_id (movies catalog))" "take 1 ([] :: bool list) \<noteq> [True]"
    by (simp_all add: example_defs)
  note inst = update_movie_partial [OF f, where upd = score_only and fl = "[]"
        and ack = "''Movie updated successfully.''" and st' = alien_rescored]
  from inst update_score_only only
  have new: "find (\<lambda>m. movie_id m = 1) (movies alien_rescored)
       = Some ((example_movie 1 ''Alien'' 722000)\<lparr>movie_score := update_score score_only\<rparr>)"
    by auto
  from inst ok
  have returns: "\<exists>st'. request (update_movie 1 score_only) catalog []
         = (Inr ''Movie updated successfully.'', st')"
    by blast
  show ?thesis using f update_score_only only new rows ok returns by blast
qed

text \<open>
  C10. Whatever the payload and the outcome, an update request leaves the ids and the country
  references of all movies, the country table, the genre, actor and language tables and the
  three link tables as they were.
\<close>

theorem update_movie_relations_unchanged:
  assumes "request (update_movie mid upd) st fl = (r, st')"
  shows "map movie_id (movies st') = map movie_id (movies st)
     \<and> map movie_country_id (movies st') = map movie_country_id (movies st)
     \<and> countries st' = countries st
     \<and> (\<forall>model. table model st' = table model st \<and> links model st' = links model st)"
proof (cases "\<exists>old. filter (\<lambda>m. movie_id m = mid) (movies st) = [old]")
  case False
  then have "st' = st" using update_movie_request_other [of mid st upd fl] assms by simp
  then show ?thesis by simp
next
  case True
  then obtain old where one: "filter (\<lambda>m. movie_id m = mid) (movies st) = [old]" by blast
  let ?new = "fold (\<lambda>kv m. setattr m kv) (dict_exclude_unset upd) old"
  have old: "movie_id old = mid" "\<forall>y \<in> set (movies st). movie_id y = mid \<longrightarrow> y = old"
    using filter_singleton_key [OF one] by simp_all
  have st': "st' = st \<or> st' = st\<lparr>movies := map (\<lambda>m. if movie_id m = mid then ?new else m) (movies st)\<rparr>"
    using assms update_movie_request [OF one, of upd fl] by (auto split: if_splits)
  have ids: "map movie_id (map (\<lambda>m. if movie_id m = mid then ?new else m) (movies st))
      = map movie_id (movies st)"
    using old(1) by (simp add: setattr_fold cong: map_cong)
  have cids: "map movie_country_id (map (\<lambda>m. if movie_id m = mid then ?new else m) (movies st))
      = map movie_country_id (movies st)"
    using old(2) by (auto simp add: setattr_fold)
  have tabs: "table model (st\<lparr>movies := ms\<rparr>) = table model st
      \<and> links model (st\<lparr>movies := ms\<rparr>) = links model st" for model ms
    by (cases model) simp_all
  show ?thesis using st' ids cids tabs by auto
qed

theorem update_movie_relations_unchanged_witness:
  "request (update_movie 1 null_overview) catalog [] = (Inr ''Movie updated successfully.'', alien_renamed)
   \<and> map movie_country_id (movies alien_renamed) = map movie_country_id (movies catalog)
   \<and> countries alien_renamed = countries catalog
   \<and> table GenreModel alien_renamed = table GenreModel catalog
   \<and> links GenreModel alien_renamed = links GenreModel catalog
   \<and> movies alien_renamed \<noteq> movies catalog"
proof -
  from update_movie_relations_unchanged [OF update_null_overview]
  have same: "map movie_country_id (movies alien_renamed) = map movie_country_id (movies catalog)
   \<and> countries alien_renamed = countries catalog
   \<and> table GenreModel alien_renamed = table GenreModel catalog
   \<and> links GenreModel alien_renamed = links GenreModel catalog"
    by blast
  have changed: "movies alien_renamed \<noteq> movies catalog"
    by (simp add: alien_renamed_def example_defs)
  show ?thesis using update_null_overview same changed by blast
qed

text \<open>
  C7. A delete request for an id no movie has fails with NotFound (404) and leaves the store
  as it was. For the id of a movie, a delete that succeeds removes that movie and the link
  rows of that movie, and leaves the country, genre, actor and language tables as they were;
  it succeeds whenever ids are unique and the store does not reject the commit.
\<close>

theorem delete_movie_frame:
  "(mid \<notin> set (map movie_id (movies st))
      \<longrightarrow> request (delete_movie mid) st fl = (Inl (HTTPException 404), st))
   \<and> (mid \<in> set (map movie_id (movies st))
        \<and> request (delete_movie mid) st fl = (Inr u, st') \<longrightarrow>
          movies st' = filter (\<lambda>m. movie_id m \<noteq> mid) (movies st)
        \<and> countries st' = countries st
        \<and> (\<forall>model. table model st' = table model st
              \<and> links model st' = filter (\<lambda>l. fst l \<noteq> mid) (links model st)))
   \<and> (mid \<in> set (map movie_id (movies st)) \<and> distinct (map movie_id (movies st))
        \<and> take 1 fl \<noteq> [True] \<longrightarrow> (\<exists>st'. request (delete_movie mid) st fl = (Inr (), st')))"
proof -
  have absent: "request (delete_movie mid) st fl = (Inl (HTTPException 404), st)"
    if "mid \<notin> set (map movie_id (movies st))"
    using filter_key_absent [OF that]
    by (simp add: request_def delete_movie_def scalar_one_or_none_def)
  have tabs: "table model (delete_row mid st) = table model st
      \<and> links model (delete_row mid st) = filter (\<lambda>l. fst l \<noteq> mid) (links model st)" for model
    by (cases model) (simp_all add: delete_row_def)
  have removed: "movies st' = filter (\<lambda>m. movie_id m \<noteq> mid) (movies st)
        \<and> countries st' = countries st
        \<and> (\<forall>model. table model st' = table model st
              \<and> links model st' = filter (\<lambda>l. fst l \<noteq> mid) (links model st))"
    if run: "request (delete_movie mid) st fl = (Inr u, st')"
  proof -
    obtain x where x: "filter (\<lambda>m. movie_id m = mid) (movies st) = [x]"
      using run delete_movie_request_fails [of mid st fl] by auto
    have "st' = delete_row mid st"
      using delete_movie_request [OF x, of fl] run by (simp split: if_splits)
    then show ?thesis using tabs by (simp add: delete_row_def)
  qed
  have returns: "\<exists>st'. request (delete_movie mid) st fl = (Inr (), st')"
    if "mid \<in> set (map movie_id (movies st))" "distinct (map movie_id (movies st))"
      "take 1 fl \<noteq> [True]"
  proof -
    from that(1) obtain old where old: "old \<in> set (movies st)" "movie_id old = mid" by auto
    have "filter (\<lambda>m. movie_id m = mid) (movies st) = [old]"
      using filter_key_distinct [OF that(2) old(1)] old(2) by simp
    from delete_movie_request [OF this, of fl] show ?thesis using that(3) by simp
  qed
  show ?thesis using absent removed returns by blast
qed

theorem delete_movie_frame_witness:
  "7 \<notin> set (map movie_id (movies catalog_with_dune))
   \<and> request (delete_movie 7) catalog_with_dune [] = (Inl (HTTPException 404), catalog_with_dune)
   \<and> 2 \<in> set (map movie_id (movies catalog_with_dune))
   \<and> distinct (map movie_id (movies catalog_with_dune))
   \<and> take 1 ([] :: bool list) \<noteq> [True]
   \<and> request (delete_movie 2) catalog_with_dune [] = (Inr (), dune_deleted)
   \<and> movies dune_deleted = filter (\<lambda>m. movie_id m \<noteq> 2) (movies catalog_with_dune)
   \<and> countries dune_deleted = countries catalog_with_dune
   \<and> table GenreModel dune_deleted = table GenreModel catalog_with_dune
   \<and> links GenreModel dune_deleted = filter (\<lambda>l. fst l \<noteq> 2) (links GenreModel catalog_with_dune)
   \<and> \<lparr>row_id = 2, row_name = ''Drama''\<rparr> \<in> set (genres dune_deleted)
   \<and> movies_genres dune_deleted = [(1, 1)]"
proof -
  have none: "7 \<notin> set (map movie_id (movies catalog_with_dune))"
    by (simp add: example_defs)
  from delete_movie_frame [where mid = 7 and st = catalog_with_dune and fl = "[]"] none
  have missing: "request (delete_movie 7) catalog_with_dune []
      = (Inl (HTTPException 404), catalog_with_dune)"
    by blast
  have one: "2 \<in> set (map movie_id (movies catalog_with_dune))"
    "distinct (map movie_id (movies catalog_with_dune))" "take 1 ([] :: bool list) \<noteq> [True]"
    by (simp_all add: example_defs)
  from delete_movie_frame [where mid = 2 and st = catalog_with_dune and fl = "[]" and u = "()"
        and st' = dune_deleted] one(1) delete_dune
  have removed: "movies dune_deleted = filter (\<lambda>m. movie_id m \<noteq> 2) (movies catalog_with_dune)
   \<and> countries dune_deleted = countries catalog_with_dune
   \<and> table GenreModel dune_deleted = table GenreModel catalog_with_dune
   \<and> links GenreModel dune_deleted = filter (\<lambda>l. fst l \<noteq> 2) (links GenreModel catalog_with_dune)"
    by blast
  have rows: "\<lparr>row_id = 2, row_name = ''Drama''\<rparr> \<in> set (genres dune_deleted)
   \<and> movies_genres dune_deleted = [(1, 1)]"
    by (simp add: dune_deleted_def example_defs)
  show ?thesis using none missing one delete_dune removed rows by blast
qed

end
